theory Spec2Isabelle
  imports Main
begin

section \<open>Values, errors and the outside world\<close>

text \<open>
  The program is one Python class, \<open>FinancialDataGenerator\<close>
  (\<open>src/src/generate_financial_data.py\<close>). Its methods only call three outside
  parties: the process environment, the remote generation service and a PostgreSQL
  server. The methods are embedded as functions on an explicit \<open>world\<close>; every
  exception is a value \<open>Inl e\<close>.
\<close>

subsection \<open>Python values\<close>

text \<open>A number with a decimal point, \<open>Decimal m d\<close> standing for \<open>m / 10 ^ d\<close>.\<close>

datatype decimal = Decimal int nat

text \<open>
  What \<open>json.loads\<close> can return. A dict is kept as the list of its items, one per
  key; a lookup takes the first item of the key.
\<close>

datatype json =
    JNull
  | JBool bool
  | JInt int
  | JFloat decimal
  | JStr string
  | JArr "json list"
  | JObj "(string \<times> json) list"

datatype error =
    KeyError string
  | TypeError
  | JSONDecodeError
  | APIError
  | OperationalError
  | DatabaseError
  | UndefinedTable string
  | InterfaceError

text \<open>
  \<open>value[key]\<close> with a string key: a dict looks the key up and raises \<open>KeyError\<close>
  when it is missing; a list, a string, a number, a boolean and \<open>None\<close> raise
  \<open>TypeError\<close>.
\<close>

fun getitem :: "json \<Rightarrow> string \<Rightarrow> error + json" where
  "getitem (JObj kvs) k = (case map_of kvs k of None \<Rightarrow> Inl (KeyError k) | Some v \<Rightarrow> Inr v)"
| "getitem JNull k = Inl TypeError"
| "getitem (JBool b) k = Inl TypeError"
| "getitem (JInt i) k = Inl TypeError"
| "getitem (JFloat f) k = Inl TypeError"
| "getitem (JStr s) k = Inl TypeError"
| "getitem (JArr xs) k = Inl TypeError"

text \<open>
  What a \<open>for\<close> loop or \<open>list.extend\<close> sees of a value: the items of a list, the
  keys of a dict, the characters of a string; anything else is not iterable.
\<close>

fun py_iter :: "json \<Rightarrow> error + json list" where
  "py_iter (JArr xs) = Inr xs"
| "py_iter (JObj kvs) = Inr (map (\<lambda>kv. JStr (fst kv)) kvs)"
| "py_iter (JStr s) = Inr (map (\<lambda>c. JStr [c]) s)"
| "py_iter JNull = Inl TypeError"
| "py_iter (JBool b) = Inl TypeError"
| "py_iter (JInt i) = Inl TypeError"
| "py_iter (JFloat f) = Inl TypeError"

text \<open>\<open>str(n)\<close> for a natural number, as the progress lines print it.\<close>

fun str_nat :: "nat \<Rightarrow> string" where
  "str_nat n =
     (if n < 10 then [char_of (48 + n)]
      else str_nat (n div 10) @ [char_of (48 + n mod 10)])"

subsection \<open>Requests to the generation service\<close>

text \<open>
  An f-string is kept as its pieces: the literal text of the source and the values
  interpolated into it (their rendering by \<open>str\<close> is left to Python).
\<close>

datatype piece = Text string | Interp json

record message =
  role :: string
  content :: "piece list"

record request =
  model :: string
  max_tokens :: nat
  temperature :: decimal
  messages :: "message list"

text \<open>
  Modelled from the spec: the remote generation service, which is not part of this
  repository. Section 6 of the spec: it "returns a JSON-encoded payload as text that the caller
  parses". A reply is either text that is not JSON, or text identified with the value it
  parses to.
\<close>

datatype reply = Malformed | Payload json

fun json_loads :: "reply \<Rightarrow> error + json" where
  "json_loads Malformed = Inl JSONDecodeError"
| "json_loads (Payload j) = Inr j"

subsection \<open>The database server\<close>

datatype db_row =
    UserRow nat json json json json
  | AccountRow nat nat json json json
  | TransactionRow nat nat json json json json json

text \<open>
  \<open>UserRow user_id name age occupation income_bracket\<close>,
  \<open>AccountRow account_id user_id account_type institution current_balance\<close>,
  \<open>TransactionRow transaction_id account_id date amount category merchant_name
  transaction_type\<close>. The list \<open>rows\<close> keeps the rows of all tables in the order of
  their insertion; \<open>catalog\<close> lists the tables with their column definitions; the three
  counters are the last values of the \<open>SERIAL\<close> sequences.
\<close>

record database =
  catalog :: "(string \<times> (string \<times> string) list) list"
  rows :: "db_row list"
  user_id_seq :: nat
  account_id_seq :: nat
  transaction_id_seq :: nat

type_synonym txn_params = "nat \<times> json \<times> json \<times> json \<times> json \<times> json"

datatype stmt =
    CreateTableIfNotExists string "(string \<times> string) list"
  | InsertUser json json json json
  | InsertAccount nat json json json
  | InsertTransactions "txn_params list"

record db_params =
  dbname :: string
  user :: string
  password :: string
  host :: string
  port :: string

datatype event =
    Print string
  | MessagesCreate request
  | Connect db_params
  | OpenCursor
  | Execute stmt
  | ExecuteValues "txn_params list"
  | Commit
  | CloseCursor
  | CloseConn

text \<open>
  The world a method runs in. \<open>replies\<close> is what the generation service will answer,
  call by call (\<open>None\<close>: the call fails). \<open>faults\<close> says, for each coming round trip to
  the database server (a connect, a statement, a commit), whether it fails; past the
  end of the list none does. \<open>db\<close> is the committed state of the server,
  \<open>session\<close> the state seen inside the open connection, and \<open>trace\<close> the calls made
  on the outside parties so far, oldest first.
\<close>

record world =
  replies :: "reply option list"
  faults :: "bool list"
  db :: database
  session :: "database option"
  trace :: "event list"

type_synonym 'a io = "world \<Rightarrow> (error + 'a) \<times> world"

definition log :: "event \<Rightarrow> world \<Rightarrow> world" where
  "log e w = w\<lparr>trace := trace w @ [e]\<rparr>"

fun fails :: "bool list \<Rightarrow> bool" where
  "fails [] = False"
| "fails (b # bs) = b"

text \<open>One round trip to the server: does it fail, and the world after it.\<close>

definition next_fault :: "world \<Rightarrow> bool \<times> world" where
  "next_fault w = (fails (faults w), w\<lparr>faults := tl (faults w)\<rparr>)"

definition has_table :: "string \<Rightarrow> database \<Rightarrow> bool" where
  "has_table t d = (t \<in> set (map fst (catalog d)))"

text \<open>
  One statement on the state of a session. It returns the values of its \<open>RETURNING\<close>
  clause. \<open>CREATE TABLE IF NOT EXISTS\<close> leaves an existing table alone.
\<close>

definition create_table_if_not_exists ::
  "string \<Rightarrow> (string \<times> string) list \<Rightarrow> database \<Rightarrow> database" where
  "create_table_if_not_exists t cols d =
     (if has_table t d then d else d\<lparr>catalog := catalog d @ [(t, cols)]\<rparr>)"

definition next_ids :: "nat \<Rightarrow> nat \<Rightarrow> nat list" where
  "next_ids s n = map (\<lambda>k. s + Suc k) [0..<n]"

fun transaction_row :: "nat \<times> txn_params \<Rightarrow> db_row" where
  "transaction_row (tid, (aid, d, a, c, m, t)) = TransactionRow tid aid d a c m t"

fun run_stmt :: "stmt \<Rightarrow> database \<Rightarrow> error + (nat list \<times> database)" where
  "run_stmt (CreateTableIfNotExists t cols) d =
     Inr ([], create_table_if_not_exists t cols d)"
| "run_stmt (InsertUser n a oc i) d =
     (if \<not> has_table ''users'' d then Inl (UndefinedTable ''users'')
      else let uid = Suc (user_id_seq d) in
        Inr ([uid], d\<lparr>rows := rows d @ [UserRow uid n a oc i], user_id_seq := uid\<rparr>))"
| "run_stmt (InsertAccount uid t inst bal) d =
     (if \<not> has_table ''accounts'' d then Inl (UndefinedTable ''accounts'')
      else let aid = Suc (account_id_seq d) in
        Inr ([aid], d\<lparr>rows := rows d @ [AccountRow aid uid t inst bal],
                      account_id_seq := aid\<rparr>))"
| "run_stmt (InsertTransactions ps) d =
     (if \<not> has_table ''transactions'' d then Inl (UndefinedTable ''transactions'')
      else Inr ([], d\<lparr>rows := rows d @
                          map transaction_row (zip (next_ids (transaction_id_seq d) (length ps)) ps),
                      transaction_id_seq := transaction_id_seq d + length ps\<rparr>))"

subsection \<open>The calls of psycopg2 and of the client\<close>

text \<open>\<open>psycopg2.connect(**params)\<close>: the session starts from the committed state.\<close>

definition psycopg2_connect :: "db_params \<Rightarrow> unit io" where
  "psycopg2_connect params w =
     (let w1 = log (Connect params) w in
      case next_fault w1 of
        (failed, w2) \<Rightarrow>
          if failed then (Inl OperationalError, w2)
          else (Inr (), w2\<lparr>session := Some (db w2)\<rparr>))"

definition conn_cursor :: "world \<Rightarrow> world" where
  "conn_cursor w = log OpenCursor w"

definition session_stmt :: "stmt \<Rightarrow> nat list io" where
  "session_stmt s w =
     (case session w of
        None \<Rightarrow> (Inl InterfaceError, w)
      | Some d \<Rightarrow>
          (case next_fault w of
             (failed, w1) \<Rightarrow>
               if failed then (Inl DatabaseError, w1)
               else (case run_stmt s d of
                       Inl e \<Rightarrow> (Inl e, w1)
                     | Inr (ids, d') \<Rightarrow> (Inr ids, w1\<lparr>session := Some d'\<rparr>))))"

text \<open>\<open>cur.execute(sql, params)\<close>.\<close>

definition cur_execute :: "stmt \<Rightarrow> nat list io" where
  "cur_execute s w = session_stmt s (log (Execute s) w)"

text \<open>
  \<open>execute_values(cur, sql, argslist)\<close>: nothing is sent for an empty list; the pages
  of a longer list are taken as one statement.
\<close>

definition execute_values :: "txn_params list \<Rightarrow> unit io" where
  "execute_values ps w =
     (let w1 = log (ExecuteValues ps) w in
      if ps = [] then (Inr (), w1)
      else (case session_stmt (InsertTransactions ps) w1 of
              (Inl e, w2) \<Rightarrow> (Inl e, w2)
            | (Inr ids, w2) \<Rightarrow> (Inr (), w2)))"

text \<open>\<open>cur.fetchone()[0]\<close> on the values a statement returned.\<close>

fun fetchone_0 :: "nat list \<Rightarrow> error + nat" where
  "fetchone_0 [] = Inl TypeError"
| "fetchone_0 (i # ids) = Inr i"

definition conn_commit :: "unit io" where
  "conn_commit w =
     (let w1 = log Commit w in
      case session w1 of
        None \<Rightarrow> (Inl InterfaceError, w1)
      | Some d \<Rightarrow>
          (case next_fault w1 of
             (failed, w2) \<Rightarrow>
               if failed then (Inl OperationalError, w2)
               else (Inr (), w2\<lparr>db := d\<rparr>)))"

definition cur_close :: "world \<Rightarrow> world" where
  "cur_close w = log CloseCursor w"

text \<open>
  \<open>conn.close()\<close>: what was not committed is lost, except the values drawn from the
  sequences, which PostgreSQL never gives back.
\<close>

definition conn_close :: "world \<Rightarrow> world" where
  "conn_close w =
     (let w1 = log CloseConn w in
      case session w1 of
        None \<Rightarrow> w1
      | Some d \<Rightarrow>
          w1\<lparr>session := None,
             db := (db w1)\<lparr>user_id_seq := user_id_seq d,
                           account_id_seq := account_id_seq d,
                           transaction_id_seq := transaction_id_seq d\<rparr>\<rparr>)"

text \<open>\<open>self.client.messages.create(...)\<close>: the next reply of the service.\<close>

definition messages_create :: "request \<Rightarrow> reply io" where
  "messages_create req w =
     (let w1 = log (MessagesCreate req) w in
      case replies w1 of
        [] \<Rightarrow> (Inl APIError, w1)
      | None # rs \<Rightarrow> (Inl APIError, w1\<lparr>replies := rs\<rparr>)
      | Some r # rs \<Rightarrow> (Inr r, w1\<lparr>replies := rs\<rparr>))"

definition py_print :: "string \<Rightarrow> world \<Rightarrow> world" where
  "py_print s w = log (Print s) w"

section \<open>The generator\<close>

subsection \<open>Construction\<close>

text \<open>\<open>os.getenv(key, default)\<close> on the process environment.\<close>

definition getenv :: "(string \<Rightarrow> string option) \<Rightarrow> string \<Rightarrow> string \<Rightarrow> string" where
  "getenv env key dflt = (case env key of None \<Rightarrow> dflt | Some v \<Rightarrow> v)"

record generator =
  api_key :: "string option"
  db_params :: db_params

text \<open>
  \<open>__init__\<close>. The client is given \<open>os.getenv("ANTHROPIC_API_KEY")\<close>; what the client
  library makes of a missing key is its own business.
\<close>

definition init :: "(string \<Rightarrow> string option) \<Rightarrow> generator" where
  "init env =
     \<lparr>api_key = env ''ANTHROPIC_API_KEY'',
      db_params =
        \<lparr>dbname = getenv env ''DB_NAME'' ''financial_data'',
         user = getenv env ''DB_USER'' ''postgres'',
         password = getenv env ''DB_PASSWORD'' ''postgres'',
         host = getenv env ''DB_HOST'' ''localhost'',
         port = getenv env ''DB_PORT'' ''5432''\<rparr>\<rparr>"

subsection \<open>Schema\<close>

definition users_ddl :: stmt where
  "users_ddl = CreateTableIfNotExists ''users''
     [(''user_id'', ''SERIAL PRIMARY KEY''),
      (''name'', ''VARCHAR(100)''),
      (''age'', ''INTEGER''),
      (''occupation'', ''VARCHAR(100)''),
      (''income_bracket'', ''VARCHAR(50)'')]"

definition accounts_ddl :: stmt where
  "accounts_ddl = CreateTableIfNotExists ''accounts''
     [(''account_id'', ''SERIAL PRIMARY KEY''),
      (''user_id'', ''INTEGER REFERENCES users(user_id)''),
      (''account_type'', ''VARCHAR(50)''),
      (''institution'', ''VARCHAR(100)''),
      (''current_balance'', ''DECIMAL(15,2)'')]"

definition transactions_ddl :: stmt where
  "transactions_ddl = CreateTableIfNotExists ''transactions''
     [(''transaction_id'', ''SERIAL PRIMARY KEY''),
      (''account_id'', ''INTEGER REFERENCES accounts(account_id)''),
      (''date'', ''TIMESTAMP''),
      (''amount'', ''DECIMAL(15,2)''),
      (''category'', ''VARCHAR(100)''),
      (''merchant_name'', ''VARCHAR(200)''),
      (''transaction_type'', ''VARCHAR(50)'')]"

text \<open>The \<open>try\<close> block of \<open>create_tables\<close>: three statements and the commit.\<close>

definition create_tables_try :: "unit io" where
  "create_tables_try w =
     (case cur_execute users_ddl w of
        (Inl e, w1) \<Rightarrow> (Inl e, w1)
      | (Inr r1, w1) \<Rightarrow>
          (case cur_execute accounts_ddl w1 of
             (Inl e, w2) \<Rightarrow> (Inl e, w2)
           | (Inr r2, w2) \<Rightarrow>
               (case cur_execute transactions_ddl w2 of
                  (Inl e, w3) \<Rightarrow> (Inl e, w3)
                | (Inr r3, w3) \<Rightarrow> conn_commit w3)))"

text \<open>
  \<open>create_tables\<close>: connect and open a cursor (outside the \<open>try\<close>), run the block,
  and close cursor and connection in the \<open>finally\<close> clause whatever the block did.
\<close>

definition create_tables :: "generator \<Rightarrow> unit io" where
  "create_tables self w =
     (case psycopg2_connect (db_params self) w of
        (Inl e, w1) \<Rightarrow> (Inl e, w1)
      | (Inr c, w1) \<Rightarrow>
          (case create_tables_try (conn_cursor w1) of
             (r, w2) \<Rightarrow> (r, conn_close (cur_close w2))))"

subsection \<open>Generation\<close>

definition profile_prompt :: "piece list" where
  "profile_prompt =
     [Text (''Generate a realistic user profile for financial data analysis with the following details in JSON format:\<newline>''
          @ ''        - A realistic full name\<newline>''
          @ ''        - Age (between 25-75)\<newline>''
          @ ''        - Occupation\<newline>''
          @ ''        - Income bracket (one of: \"25k-50k\", \"50k-75k\", \"75k-100k\", \"100k-150k\", \"150k+\")\<newline>''
          @ ''        Make it realistic and varied.'')]"

definition accounts_prompt :: "json \<Rightarrow> piece list" where
  "accounts_prompt income =
     [Text ''Generate realistic bank account data for a person with income '',
      Interp income,
      Text ('' in JSON format.\<newline>''
          @ ''        Include 2-4 accounts with:\<newline>''
          @ ''        - account_type (checking, savings, credit_card, investment)\<newline>''
          @ ''        - institution (use realistic bank names)\<newline>''
          @ ''        - current_balance (make it realistic based on income and account type)\<newline>''
          @ ''        Return as a list of account objects.'')]"

definition transactions_prompt :: "json \<Rightarrow> json \<Rightarrow> json \<Rightarrow> piece list" where
  "transactions_prompt account_type current_balance income =
     [Text ''Generate 2 years of realistic transactions for a '',
      Interp account_type,
      Text ('' account \<newline>''
          @ ''        with current balance $''),
      Interp current_balance,
      Text '' for a person with income '',
      Interp income,
      Text (''.\<newline>''
          @ ''        Include:\<newline>''
          @ ''        - date (between 2022-01-01 and 2023-12-31)\<newline>''
          @ ''        - amount\<newline>''
          @ ''        - category\<newline>''
          @ ''        - merchant_name\<newline>''
          @ ''        - transaction_type (debit/credit)\<newline>''
          @ ''        Make transactions realistic based on account type and balance. Return as JSON list.'')]"

text \<open>
  \<open>response = self.client.messages.create(...)\<close> followed by
  \<open>json.loads(response.content)\<close>, as each generation method ends.
\<close>

definition create_and_load :: "request \<Rightarrow> json io" where
  "create_and_load req w =
     (case messages_create req w of
        (Inl e, w1) \<Rightarrow> (Inl e, w1)
      | (Inr response, w1) \<Rightarrow> (json_loads response, w1))"

definition generate_user_profile :: "generator \<Rightarrow> int \<Rightarrow> json io" where
  "generate_user_profile self index w =
     create_and_load
       \<lparr>model = ''claude-3-sonnet-20240229'',
        max_tokens = 300,
        temperature = Decimal 7 1,
        messages = [\<lparr>role = ''user'', content = profile_prompt\<rparr>]\<rparr> w"

definition generate_accounts :: "generator \<Rightarrow> json \<Rightarrow> json io" where
  "generate_accounts self user_profile w =
     (case getitem user_profile ''income_bracket'' of
        Inl e \<Rightarrow> (Inl e, w)
      | Inr income \<Rightarrow>
          create_and_load
            \<lparr>model = ''claude-3-sonnet-20240229'',
             max_tokens = 500,
             temperature = Decimal 7 1,
             messages = [\<lparr>role = ''user'', content = accounts_prompt income\<rparr>]\<rparr> w)"

definition generate_transactions :: "generator \<Rightarrow> json \<Rightarrow> json \<Rightarrow> json io" where
  "generate_transactions self account user_profile w =
     (case getitem account ''account_type'' of
        Inl e \<Rightarrow> (Inl e, w)
      | Inr account_type \<Rightarrow>
          (case getitem account ''current_balance'' of
             Inl e \<Rightarrow> (Inl e, w)
           | Inr current_balance \<Rightarrow>
               (case getitem user_profile ''income_bracket'' of
                  Inl e \<Rightarrow> (Inl e, w)
                | Inr income \<Rightarrow>
                    create_and_load
                      \<lparr>model = ''claude-3-sonnet-20240229'',
                       max_tokens = 1000,
                       temperature = Decimal 7 1,
                       messages =
                         [\<lparr>role = ''user'',
                           content = transactions_prompt account_type current_balance income\<rparr>]\<rparr>
                      w)))"

subsection \<open>Persistence\<close>

text \<open>The parameter tuples of the three inserts, built left to right.\<close>

definition user_params :: "json \<Rightarrow> error + stmt" where
  "user_params user_data =
     (case getitem user_data ''name'' of
        Inl e \<Rightarrow> Inl e
      | Inr n \<Rightarrow>
          (case getitem user_data ''age'' of
             Inl e \<Rightarrow> Inl e
           | Inr a \<Rightarrow>
               (case getitem user_data ''occupation'' of
                  Inl e \<Rightarrow> Inl e
                | Inr oc \<Rightarrow>
                    (case getitem user_data ''income_bracket'' of
                       Inl e \<Rightarrow> Inl e
                     | Inr i \<Rightarrow> Inr (InsertUser n a oc i)))))"

definition account_params :: "nat \<Rightarrow> json \<Rightarrow> error + stmt" where
  "account_params user_id account =
     (case getitem account ''account_type'' of
        Inl e \<Rightarrow> Inl e
      | Inr t \<Rightarrow>
          (case getitem account ''institution'' of
             Inl e \<Rightarrow> Inl e
           | Inr inst \<Rightarrow>
               (case getitem account ''current_balance'' of
                  Inl e \<Rightarrow> Inl e
                | Inr bal \<Rightarrow> Inr (InsertAccount user_id t inst bal))))"

definition transaction_params :: "nat \<Rightarrow> json \<Rightarrow> error + txn_params" where
  "transaction_params account_id txn =
     (case getitem txn ''date'' of
        Inl e \<Rightarrow> Inl e
      | Inr d \<Rightarrow>
          (case getitem txn ''amount'' of
             Inl e \<Rightarrow> Inl e
           | Inr a \<Rightarrow>
               (case getitem txn ''category'' of
                  Inl e \<Rightarrow> Inl e
                | Inr c \<Rightarrow>
                    (case getitem txn ''merchant_name'' of
                       Inl e \<Rightarrow> Inl e
                     | Inr m \<Rightarrow>
                         (case getitem txn ''transaction_type'' of
                            Inl e \<Rightarrow> Inl e
                          | Inr t \<Rightarrow> Inr (account_id, d, a, c, m, t))))))"

text \<open>
  The list comprehension \<open>[(account_id, txn["date"], ...) for txn in transactions_data]\<close>:
  it stops at the first element that raises.
\<close>

fun comprehension :: "nat \<Rightarrow> json list \<Rightarrow> error + txn_params list" where
  "comprehension account_id [] = Inr []"
| "comprehension account_id (txn # txns) =
     (case transaction_params account_id txn of
        Inl e \<Rightarrow> Inl e
      | Inr p \<Rightarrow>
          (case comprehension account_id txns of
             Inl e \<Rightarrow> Inl e
           | Inr ps \<Rightarrow> Inr (p # ps)))"

text \<open>
  The loop \<open>for account in accounts_data\<close>: insert the account, fetch its identifier,
  and hand the whole of \<open>transactions_data\<close> to \<open>execute_values\<close> under that identifier.
\<close>

fun insert_accounts :: "nat \<Rightarrow> json list \<Rightarrow> json list \<Rightarrow> unit io" where
  "insert_accounts user_id [] transactions_data w = (Inr (), w)"
| "insert_accounts user_id (account # accounts) transactions_data w =
     (case account_params user_id account of
        Inl e \<Rightarrow> (Inl e, w)
      | Inr s \<Rightarrow>
          (case cur_execute s w of
             (Inl e, w1) \<Rightarrow> (Inl e, w1)
           | (Inr ids, w1) \<Rightarrow>
               (case fetchone_0 ids of
                  Inl e \<Rightarrow> (Inl e, w1)
                | Inr account_id \<Rightarrow>
                    (case comprehension account_id transactions_data of
                       Inl e \<Rightarrow> (Inl e, w1)
                     | Inr ps \<Rightarrow>
                         (case execute_values ps w1 of
                            (Inl e, w2) \<Rightarrow> (Inl e, w2)
                          | (Inr u, w2) \<Rightarrow>
                              insert_accounts user_id accounts transactions_data w2)))))"

text \<open>The inserts of the \<open>try\<close> block of \<open>insert_data\<close>, up to the commit.\<close>

definition insert_rows :: "json \<Rightarrow> json list \<Rightarrow> json list \<Rightarrow> unit io" where
  "insert_rows user_data accounts_data transactions_data w =
     (case user_params user_data of
        Inl e \<Rightarrow> (Inl e, w)
      | Inr s \<Rightarrow>
          (case cur_execute s w of
             (Inl e, w1) \<Rightarrow> (Inl e, w1)
           | (Inr ids, w1) \<Rightarrow>
               (case fetchone_0 ids of
                  Inl e \<Rightarrow> (Inl e, w1)
                | Inr user_id \<Rightarrow>
                    insert_accounts user_id accounts_data transactions_data w1)))"

definition insert_data_try :: "json \<Rightarrow> json list \<Rightarrow> json list \<Rightarrow> unit io" where
  "insert_data_try user_data accounts_data transactions_data w =
     (case insert_rows user_data accounts_data transactions_data w of
        (Inl e, w1) \<Rightarrow> (Inl e, w1)
      | (Inr u, w1) \<Rightarrow> conn_commit w1)"

text \<open>
  \<open>insert_data\<close>, with \<open>accounts_data\<close> and \<open>transactions_data\<close> the Python lists its
  signature announces: connect and open a cursor, run the block, close both in
  the \<open>finally\<close> clause.
\<close>

definition insert_data :: "generator \<Rightarrow> json \<Rightarrow> json list \<Rightarrow> json list \<Rightarrow> unit io" where
  "insert_data self user_data accounts_data transactions_data w =
     (case psycopg2_connect (db_params self) w of
        (Inl e, w1) \<Rightarrow> (Inl e, w1)
      | (Inr c, w1) \<Rightarrow>
          (case insert_data_try user_data accounts_data transactions_data (conn_cursor w1) of
             (r, w2) \<Rightarrow> (r, conn_close (cur_close w2))))"

subsection \<open>The run\<close>

definition str_int :: "int \<Rightarrow> string" where
  "str_int n = (if n < 0 then ''-'' @ str_nat (nat (- n)) else str_nat (nat n))"

definition generating_line :: "nat \<Rightarrow> int \<Rightarrow> string" where
  "generating_line i num_users =
     ''Generating data for user '' @ str_nat (i + 1) @ ''/'' @ str_int num_users"

definition completed_line :: "nat \<Rightarrow> string" where
  "completed_line i = ''Completed user '' @ str_nat (i + 1)"

text \<open>
  The inner loop of \<open>generate_all_data\<close>: one call of \<open>generate_transactions\<close> per
  account, its result appended to \<open>all_transactions\<close> by \<open>extend\<close>.
\<close>

fun collect_transactions ::
  "generator \<Rightarrow> json \<Rightarrow> json list \<Rightarrow> json list \<Rightarrow> json list io" where
  "collect_transactions self user_profile [] all_transactions w = (Inr all_transactions, w)"
| "collect_transactions self user_profile (account # accounts) all_transactions w =
     (case generate_transactions self account user_profile w of
        (Inl e, w1) \<Rightarrow> (Inl e, w1)
      | (Inr transactions, w1) \<Rightarrow>
          (case py_iter transactions of
             Inl e \<Rightarrow> (Inl e, w1)
           | Inr ts \<Rightarrow>
               collect_transactions self user_profile accounts (all_transactions @ ts) w1))"

text \<open>
  One turn of the outer loop. \<open>accounts\<close> is iterated here and again inside
  \<open>insert_data\<close>; the items are the same both times, so the list is passed on.
\<close>

definition one_user :: "generator \<Rightarrow> int \<Rightarrow> nat \<Rightarrow> unit io" where
  "one_user self num_users i w =
     (case generate_user_profile self (int i) (py_print (generating_line i num_users) w) of
        (Inl e, w1) \<Rightarrow> (Inl e, w1)
      | (Inr user_profile, w1) \<Rightarrow>
          (case generate_accounts self user_profile w1 of
             (Inl e, w2) \<Rightarrow> (Inl e, w2)
           | (Inr accounts, w2) \<Rightarrow>
               (case py_iter accounts of
                  Inl e \<Rightarrow> (Inl e, w2)
                | Inr accounts_list \<Rightarrow>
                    (case collect_transactions self user_profile accounts_list [] w2 of
                       (Inl e, w3) \<Rightarrow> (Inl e, w3)
                     | (Inr all_transactions, w3) \<Rightarrow>
                         (case insert_data self user_profile accounts_list all_transactions w3 of
                            (Inl e, w4) \<Rightarrow> (Inl e, w4)
                          | (Inr u, w4) \<Rightarrow> (Inr (), py_print (completed_line i) w4))))))"

text \<open>\<open>for i in range(num_users)\<close>, left at the first exception.\<close>

fun users_loop :: "generator \<Rightarrow> int \<Rightarrow> nat list \<Rightarrow> unit io" where
  "users_loop self num_users [] w = (Inr (), w)"
| "users_loop self num_users (i # is) w =
     (case one_user self num_users i w of
        (Inl e, w1) \<Rightarrow> (Inl e, w1)
      | (Inr u, w1) \<Rightarrow> users_loop self num_users is w1)"

definition generate_all_data :: "generator \<Rightarrow> int \<Rightarrow> unit io" where
  "generate_all_data self num_users w =
     (case create_tables self w of
        (Inl e, w1) \<Rightarrow> (Inl e, w1)
      | (Inr u, w1) \<Rightarrow> users_loop self num_users [0..<nat num_users] w1)"

section \<open>Notions used to state the properties\<close>

text \<open>The same world with an empty trace: what a call adds to it is then all of it.\<close>

definition fresh :: "world \<Rightarrow> world" where
  "fresh w = w\<lparr>trace := []\<rparr>"

text \<open>No failure among the next \<open>k\<close> round trips to the server.\<close>

definition calm :: "nat \<Rightarrow> bool list \<Rightarrow> bool" where
  "calm k fs = (True \<notin> set (take k fs))"

text \<open>The requests sent to the generation service, and the settings of one.\<close>

fun requests :: "event list \<Rightarrow> request list" where
  "requests [] = []"
| "requests (MessagesCreate r # es) = r # requests es"
| "requests (e # es) = requests es"

definition settings :: "request \<Rightarrow> nat \<times> decimal" where
  "settings r = (max_tokens r, temperature r)"

text \<open>The three statements of \<open>create_tables\<close> on a database, in their order.\<close>

definition schema :: "database \<Rightarrow> database" where
  "schema d =
     (case run_stmt users_ddl d of Inr (r1, d1) \<Rightarrow>
        (case run_stmt accounts_ddl d1 of Inr (r2, d2) \<Rightarrow>
           (case run_stmt transactions_ddl d2 of Inr (r3, d3) \<Rightarrow> d3)))"

text \<open>
  What section 8 of the spec asks of the accounts of one user: a list of two to four
  accounts, each of an enumerated type.
\<close>

definition account_types :: "string list" where
  "account_types = [''checking'', ''savings'', ''credit_card'', ''investment'']"

fun valid_accounts :: "json \<Rightarrow> bool" where
  "valid_accounts (JArr xs) =
     (2 \<le> length xs \<and> length xs \<le> 4 \<and>
      list_all (\<lambda>a. list_ex (\<lambda>t. getitem a ''account_type'' = Inr (JStr t)) account_types) xs)"
| "valid_accounts j = False"

text \<open>
  Rows that respect the tiers, read in the order of their insertion: no user row among
  them, every account row carries the user identifier \<open>uid\<close>, and every transaction
  row carries the identifier of an account row met before it (or one of \<open>seen\<close>).
\<close>

fun refs_ok :: "nat \<Rightarrow> nat list \<Rightarrow> db_row list \<Rightarrow> bool" where
  "refs_ok uid seen [] = True"
| "refs_ok uid seen (AccountRow aid u t i b # rs) = (u = uid \<and> refs_ok uid (aid # seen) rs)"
| "refs_ok uid seen (TransactionRow tid aid d a c m t # rs) =
     (aid \<in> set seen \<and> refs_ok uid seen rs)"
| "refs_ok uid seen (UserRow u n a oc i # rs) = False"

text \<open>
  The line a run has to follow, as the spec words it: the schema is initialized
  first; then, user after user, the progress line, the profile request, the accounts
  request, one transactions request per account, the connection that persists the
  user, as many account inserts as there were transactions requests, the commit, the
  two closes, and the completion line. \<open>Schemed\<close> is the schema in place,
  \<open>Completed i\<close> the user of index \<open>i\<close> done, \<open>Stopped\<close> a connection closed
  without a commit, after which nothing may follow, and \<open>Bad\<close> a call out of line.
\<close>

datatype phase =
    Idle
  | SchemaConn
  | SchemaOpen
  | SchemaCommitted
  | SchemaClosing
  | Schemed
  | Started nat
  | Profiled nat
  | Collecting nat nat
  | Connected nat nat
  | Opened nat nat
  | Inserting nat nat nat
  | AccountIn nat nat nat
  | Committed nat
  | Closing nat
  | Persisted nat
  | Completed nat
  | Aborting
  | Stopped
  | Bad





subsection \<open>Sample inputs\<close>

text \<open>The records of the end-to-end scenario of the spec, and a second of each kind.\<close>

definition jane :: json where
  "jane = JObj [(''name'', JStr ''Jane Doe''), (''age'', JInt 34),
     (''occupation'', JStr ''Engineer''), (''income_bracket'', JStr ''75k-100k'')]"

definition checking_acct :: json where
  "checking_acct = JObj [(''account_type'', JStr ''checking''), (''institution'', JStr ''Test Bank''),
     (''current_balance'', JFloat (Decimal 100000 2))]"

definition savings_acct :: json where
  "savings_acct = JObj [(''account_type'', JStr ''savings''), (''institution'', JStr ''Test Bank''),
     (''current_balance'', JFloat (Decimal 250000 2))]"

definition groceries_txn :: json where
  "groceries_txn = JObj [(''date'', JStr ''2023-01-15''), (''amount'', JFloat (Decimal (- 5000) 2)),
     (''category'', JStr ''groceries''), (''merchant_name'', JStr ''Store''),
     (''transaction_type'', JStr ''debit'')]"

definition interest_txn :: json where
  "interest_txn = JObj [(''date'', JStr ''2023-02-01''), (''amount'', JFloat (Decimal 1250 2)),
     (''category'', JStr ''interest''), (''merchant_name'', JStr ''Test Bank''),
     (''transaction_type'', JStr ''credit'')]"

definition empty_db :: database where
  "empty_db = \<lparr>catalog = [], rows = [], user_id_seq = 0, account_id_seq = 0,
     transaction_id_seq = 0\<rparr>"

text \<open>A world with an empty database, no server failure, and the given replies.\<close>

definition world0 :: "reply option list \<Rightarrow> world" where
  "world0 rs = \<lparr>replies = rs, faults = [], db = empty_db, session = None, trace = []\<rparr>"

text \<open>The same once \<open>create_tables\<close> has run.\<close>

definition ready_world :: "reply option list \<Rightarrow> world" where
  "ready_world rs = (world0 rs)\<lparr>db := schema empty_db\<rparr>"

text \<open>
  One user with two accounts, one transaction generated for each: the replies of the
  model to the profile request, the accounts request and the two transactions requests.
\<close>

definition two_accounts_run :: world where
  "two_accounts_run = world0
     [Some (Payload jane), Some (Payload (JArr [checking_acct, savings_acct])),
      Some (Payload (JArr [groceries_txn])), Some (Payload (JArr [interest_txn]))]"

definition no_env :: "string \<Rightarrow> string option" where
  "no_env k = None"

section \<open>Properties\<close>

subsection \<open>Auxiliary facts\<close>

lemma calm_0 [simp]: "calm 0 fs"
  by (simp add: calm_def)





lemma trace_messages_create:
  "trace (snd (messages_create r w)) = trace w @ [MessagesCreate r]"
  by (simp add: messages_create_def log_def Let_def split: list.splits option.splits)

lemma trace_create_and_load:
  "trace (snd (create_and_load r w)) = trace w @ [MessagesCreate r]"
  using trace_messages_create [of r w]
  by (auto simp: create_and_load_def split: prod.splits sum.splits)

lemma has_table_create [simp]:
  "has_table t (create_table_if_not_exists t' cols d) = (t = t' \<or> has_table t d)"
  by (auto simp: create_table_if_not_exists_def has_table_def)



lemma rows_create [simp]: "rows (create_table_if_not_exists t cols d) = rows d"
  by (simp add: create_table_if_not_exists_def)

lemma schema_eq:
  "schema d =
     create_table_if_not_exists ''transactions'' (case transactions_ddl of CreateTableIfNotExists t c \<Rightarrow> c)
       (create_table_if_not_exists ''accounts'' (case accounts_ddl of CreateTableIfNotExists t c \<Rightarrow> c)
          (create_table_if_not_exists ''users'' (case users_ddl of CreateTableIfNotExists t c \<Rightarrow> c) d))"
  by (simp add: schema_def users_ddl_def accounts_ddl_def transactions_ddl_def)




lemma schema_rows: "rows (schema d) = rows d"
  by (simp add: schema_eq)

lemma schema_seqs:
  "user_id_seq (schema d) = user_id_seq d"
  "account_id_seq (schema d) = account_id_seq d"
  "transaction_id_seq (schema d) = transaction_id_seq d"
  by (simp_all add: schema_eq create_table_if_not_exists_def)



subsection \<open>What the calls on the database leave alone\<close>

lemma session_stmt_cases:
  obtains (fail) e where "session_stmt s w = (Inl e, w)" "session w = None"
  | (fault) d where "session w = Some d" "fails (faults w)"
      "session_stmt s w = (Inl DatabaseError, w\<lparr>faults := tl (faults w)\<rparr>)"
  | (reject) d e where "session w = Some d" "\<not> fails (faults w)" "run_stmt s d = Inl e"
      "session_stmt s w = (Inl e, w\<lparr>faults := tl (faults w)\<rparr>)"
  | (ok) d ids d' where "session w = Some d" "\<not> fails (faults w)" "run_stmt s d = Inr (ids, d')"
      "session_stmt s w = (Inr ids, w\<lparr>faults := tl (faults w), session := Some d'\<rparr>)"
  by (cases "session w"; cases "fails (faults w)"; cases "run_stmt s (the (session w))")
     (auto simp: session_stmt_def next_fault_def)

lemma session_stmt_Inr:
  "session_stmt s w = (Inr ids, w') \<Longrightarrow>
   \<exists>d d'. session w = Some d \<and> run_stmt s d = Inr (ids, d') \<and>
          w' = w\<lparr>faults := tl (faults w), session := Some d'\<rparr>"
  by (cases s w rule: session_stmt_cases) auto

lemma session_stmt_Inl:
  "session_stmt s w = (Inl e, w') \<Longrightarrow>
   session w' = session w \<and> db w' = db w \<and> trace w' = trace w \<and> replies w' = replies w"
  by (cases s w rule: session_stmt_cases) auto

lemma cur_execute_Inr:
  "cur_execute s w = (Inr ids, w') \<Longrightarrow>
   \<exists>d d'. session w = Some d \<and> run_stmt s d = Inr (ids, d') \<and>
          w' = w\<lparr>trace := trace w @ [Execute s], faults := tl (faults w), session := Some d'\<rparr>"
  by (auto simp: cur_execute_def log_def dest!: session_stmt_Inr)

lemma cur_execute_Inl:
  "cur_execute s w = (Inl e, w') \<Longrightarrow>
   session w' = session w \<and> db w' = db w \<and> trace w' = trace w @ [Execute s] \<and> replies w' = replies w"
  by (auto simp: cur_execute_def log_def dest!: session_stmt_Inl)

lemma execute_values_Inr:
  "execute_values ps w = (Inr u, w') \<Longrightarrow>
   (ps = [] \<and> w' = w\<lparr>trace := trace w @ [ExecuteValues ps]\<rparr>) \<or>
   (ps \<noteq> [] \<and> (\<exists>d d' ids. session w = Some d \<and> run_stmt (InsertTransactions ps) d = Inr (ids, d') \<and>
          w' = w\<lparr>trace := trace w @ [ExecuteValues ps], faults := tl (faults w), session := Some d'\<rparr>))"
  by (auto simp: execute_values_def log_def Let_def split: if_splits prod.splits sum.splits dest!: session_stmt_Inr)

lemma execute_values_Inl:
  "execute_values ps w = (Inl e, w') \<Longrightarrow>
   session w' = session w \<and> db w' = db w \<and> trace w' = trace w @ [ExecuteValues ps] \<and> replies w' = replies w"
  by (auto simp: execute_values_def log_def Let_def split: if_splits prod.splits sum.splits dest!: session_stmt_Inl)

lemma comprehension_aid:
  "comprehension aid txns = Inr ps \<Longrightarrow> \<forall>p \<in> set ps. fst p = aid"
  by (induction txns arbitrary: ps)
     (auto simp: transaction_params_def split: sum.splits)

lemma refs_ok_transactions:
  "\<forall>p \<in> set ps. fst p = aid \<Longrightarrow> aid \<in> set seen \<Longrightarrow> length ids = length ps \<Longrightarrow>
   refs_ok uid seen (map transaction_row (zip ids ps) @ rs) = refs_ok uid seen rs"
  by (induction ps arbitrary: ids) (auto simp: length_Suc_conv)


lemma length_next_ids [simp]: "length (next_ids s n) = n"
  by (simp add: next_ids_def)

lemma run_insert_account:
  "run_stmt (InsertAccount uid t i b) d = Inr (ids, d') \<Longrightarrow>
   ids = [Suc (account_id_seq d)] \<and> rows d' = rows d @ [AccountRow (Suc (account_id_seq d)) uid t i b]
   \<and> catalog d' = catalog d"
  by (auto simp: Let_def split: if_splits)

lemma run_insert_transactions:
  "run_stmt (InsertTransactions ps) d = Inr (ids, d') \<Longrightarrow>
   rows d' = rows d @ map transaction_row (zip (next_ids (transaction_id_seq d) (length ps)) ps)
   \<and> catalog d' = catalog d"
  by (auto split: if_splits)

lemma execute_values_rows:
  assumes "execute_values ps w = (Inr u, w')" "session w = Some d"
  shows "\<exists>d'. session w' = Some d' \<and> catalog d' = catalog d \<and>
     rows d' = rows d @ map transaction_row (zip (next_ids (transaction_id_seq d) (length ps)) ps)"
proof (cases "ps = []")
  case True
  with execute_values_Inr [OF assms(1)] assms(2) show ?thesis by auto
next
  case False
  with execute_values_Inr [OF assms(1)] assms(2) obtain d' ids where
    "run_stmt (InsertTransactions ps) d = Inr (ids, d')" "session w' = Some d'"
    by auto
  with run_insert_transactions [of ps d ids d'] show ?thesis by simp
qed

lemma account_params_Inr:
  "account_params uid a = Inr s \<Longrightarrow> \<exists>t i b. s = InsertAccount uid t i b"
  by (auto simp: account_params_def split: sum.splits)

lemma user_params_Inr:
  "user_params u = Inr s \<Longrightarrow> \<exists>n a oc i. s = InsertUser n a oc i"
  by (auto simp: user_params_def split: sum.splits)

lemma insert_accounts_rows:
  "insert_accounts uid accs txns w = (Inr (), w') \<Longrightarrow> session w = Some d \<Longrightarrow>
   \<exists>d' new. session w' = Some d' \<and> rows d' = rows d @ new \<and> refs_ok uid seen new
      \<and> catalog d' = catalog d"
proof (induction accs arbitrary: w d seen)
  case Nil
  then show ?case by auto
next
  case (Cons a accs)
  from Cons.prems(1) obtain s ids w1 aid ps w2 u where
    s: "account_params uid a = Inr s" and
    e: "cur_execute s w = (Inr ids, w1)" and
    f: "fetchone_0 ids = Inr aid" and
    c: "comprehension aid txns = Inr ps" and
    v: "execute_values ps w1 = (Inr u, w2)" and
    r: "insert_accounts uid accs txns w2 = (Inr (), w')"
    by (auto split: sum.splits prod.splits)
  from s obtain t i b where s': "s = InsertAccount uid t i b"
    by (auto dest: account_params_Inr)
  from cur_execute_Inr [OF e] Cons.prems(2) obtain d1 where
    d1: "run_stmt s d = Inr (ids, d1)" "session w1 = Some d1"
    by auto
  from run_insert_account [OF d1(1) [unfolded s']] f have
    aid: "rows d1 = rows d @ [AccountRow aid uid t i b]" "catalog d1 = catalog d"
    by auto
  from execute_values_rows [OF v d1(2)] obtain d2 where
    d2: "session w2 = Some d2" "catalog d2 = catalog d1"
      "rows d2 = rows d1 @ map transaction_row (zip (next_ids (transaction_id_seq d1) (length ps)) ps)"
    by blast
  from Cons.IH [OF r d2(1), of "aid # seen"] obtain d' new where
    n: "session w' = Some d'" "rows d' = rows d2 @ new" "refs_ok uid (aid # seen) new"
       "catalog d' = catalog d2"
    by blast
  have "refs_ok uid seen (AccountRow aid uid t i b #
      map transaction_row (zip (next_ids (transaction_id_seq d1) (length ps)) ps) @ new)"
    using n(3)
      refs_ok_transactions [OF comprehension_aid [OF c], of "aid # seen"
        "next_ids (transaction_id_seq d1) (length ps)" uid new]
    by simp
  then show ?case using n aid d2 by auto
qed

lemma insert_rows_rows:
  assumes a: "insert_rows u accs txns w = (Inr (), w')" and d: "session w = Some d"
  shows "\<exists>d' n a oc i rest. session w' = Some d' \<and> catalog d' = catalog d \<and>
           rows d' = rows d @ UserRow (Suc (user_id_seq d)) n a oc i # rest \<and>
           refs_ok (Suc (user_id_seq d)) [] rest"
proof -
  from a obtain s ids w1 uid where
    s: "user_params u = Inr s" and
    e: "cur_execute s w = (Inr ids, w1)" and
    f: "fetchone_0 ids = Inr uid" and
    r: "insert_accounts uid accs txns w1 = (Inr (), w')"
    by (auto simp: insert_rows_def split: sum.splits prod.splits)
  from s obtain n a oc i where s': "s = InsertUser n a oc i"
    by (auto dest: user_params_Inr)
  from cur_execute_Inr [OF e] d obtain d1 where
    d1: "run_stmt s d = Inr (ids, d1)" "session w1 = Some d1"
    by auto
  from d1(1) f have u: "rows d1 = rows d @ [UserRow uid n a oc i]" "catalog d1 = catalog d"
      "uid = Suc (user_id_seq d)"
    by (auto simp: s' Let_def split: if_splits)
  from insert_accounts_rows [OF r d1(2), of "[]"] obtain d' new where
    "session w' = Some d'" "rows d' = rows d1 @ new" "refs_ok uid [] new" "catalog d' = catalog d1"
    by blast
  then show ?thesis using u by auto
qed

lemma session_stmt_frame:
  "session_stmt s w = (r, w') \<Longrightarrow>
   db w' = db w \<and> trace w' = trace w \<and> replies w' = replies w \<and>
   (session w \<noteq> None \<longrightarrow> session w' \<noteq> None)"
  by (cases s w rule: session_stmt_cases) auto

lemma cur_execute_frame:
  "cur_execute s w = (r, w') \<Longrightarrow>
   db w' = db w \<and> trace w' = trace w @ [Execute s] \<and> replies w' = replies w \<and>
   (session w \<noteq> None \<longrightarrow> session w' \<noteq> None)"
  by (auto simp: cur_execute_def log_def dest!: session_stmt_frame)

lemma execute_values_frame:
  "execute_values ps w = (r, w') \<Longrightarrow>
   db w' = db w \<and> trace w' = trace w @ [ExecuteValues ps] \<and> replies w' = replies w \<and>
   (session w \<noteq> None \<longrightarrow> session w' \<noteq> None)"
  by (auto simp: execute_values_def log_def Let_def split: if_splits prod.splits sum.splits
      dest!: session_stmt_frame)

lemma insert_accounts_frame:
  "insert_accounts uid accs txns w = (r, w') \<Longrightarrow>
   db w' = db w \<and> (session w \<noteq> None \<longrightarrow> session w' \<noteq> None) \<and>
   (\<exists>T. trace w' = trace w @ T \<and> Commit \<notin> set T)"
proof (induction accs arbitrary: w)
  case Nil
  then show ?case by auto
next
  case (Cons a accs)
  show ?case
  proof (cases "account_params uid a")
    case (Inl e)
    with Cons.prems show ?thesis by auto
  next
    case (Inr s)
    obtain r1 w1 where e: "cur_execute s w = (r1, w1)" by (cases "cur_execute s w")
    note f1 = cur_execute_frame [OF e]
    show ?thesis
    proof (cases r1)
      case (Inl e1)
      with Cons.prems Inr e f1 show ?thesis by auto
    next
      case ids: (Inr ids)
      show ?thesis
      proof (cases "fetchone_0 ids")
        case (Inl e2)
        with Cons.prems Inr e ids f1 show ?thesis by auto
      next
        case aid: (Inr aid)
        show ?thesis
        proof (cases "comprehension aid txns")
          case (Inl e3)
          with Cons.prems Inr e ids aid f1 show ?thesis by auto
        next
          case ps: (Inr ps)
          obtain r2 w2 where v: "execute_values ps w1 = (r2, w2)"
            by (cases "execute_values ps w1")
          note f2 = execute_values_frame [OF v]
          show ?thesis
          proof (cases r2)
            case (Inl e4)
            with Cons.prems Inr e ids aid ps v f1 f2 show ?thesis by auto
          next
            case u: (Inr u)
            with Cons.prems Inr e ids aid ps v
            have "insert_accounts uid accs txns w2 = (r, w')" by simp
            from Cons.IH [OF this] f1 f2 show ?thesis by auto
          qed
        qed
      qed
    qed
  qed
qed

lemma insert_rows_frame:
  "insert_rows u accs txns w = (r, w') \<Longrightarrow>
   db w' = db w \<and> (session w \<noteq> None \<longrightarrow> session w' \<noteq> None) \<and>
   (\<exists>T. trace w' = trace w @ T \<and> Commit \<notin> set T)"
proof (cases "user_params u")
  case (Inl e)
  assume "insert_rows u accs txns w = (r, w')"
  with Inl show ?thesis by (auto simp: insert_rows_def)
next
  case (Inr s)
  assume a: "insert_rows u accs txns w = (r, w')"
  obtain r1 w1 where e: "cur_execute s w = (r1, w1)" by (cases "cur_execute s w")
  note f1 = cur_execute_frame [OF e]
  show ?thesis
  proof (cases r1)
    case (Inl e1)
    with a Inr e f1 show ?thesis by (auto simp: insert_rows_def)
  next
    case ids: (Inr ids)
    show ?thesis
    proof (cases "fetchone_0 ids")
      case (Inl e2)
      with a Inr e ids f1 show ?thesis by (auto simp: insert_rows_def)
    next
      case uid: (Inr uid)
      with a Inr e ids have "insert_accounts uid accs txns w1 = (r, w')"
        by (simp add: insert_rows_def)
      from insert_accounts_frame [OF this] f1 show ?thesis by auto
    qed
  qed
qed


lemma connect_eq:
  "psycopg2_connect p w =
     (if fails (faults w)
      then (Inl OperationalError, w\<lparr>trace := trace w @ [Connect p], faults := tl (faults w)\<rparr>)
      else (Inr (), w\<lparr>trace := trace w @ [Connect p], faults := tl (faults w),
                       session := Some (db w)\<rparr>))"
  by (simp add: psycopg2_connect_def log_def next_fault_def Let_def)

lemma conn_commit_Inr:
  "conn_commit w = (Inr u, w') \<Longrightarrow>
   \<exists>d. session w = Some d \<and> w' = w\<lparr>trace := trace w @ [Commit], faults := tl (faults w), db := d\<rparr>"
  by (auto simp: conn_commit_def log_def next_fault_def Let_def split: option.splits if_splits)

lemma conn_commit_Inl:
  "conn_commit w = (Inl e, w') \<Longrightarrow>
   db w' = db w \<and> session w' = session w \<and> trace w' = trace w @ [Commit]"
  by (auto simp: conn_commit_def log_def next_fault_def Let_def split: option.splits if_splits)

lemma close_both:
  "session w = Some d \<Longrightarrow>
   conn_close (cur_close w) =
     w\<lparr>trace := trace w @ [CloseCursor, CloseConn], session := None,
       db := (db w)\<lparr>user_id_seq := user_id_seq d, account_id_seq := account_id_seq d,
                     transaction_id_seq := transaction_id_seq d\<rparr>\<rparr>"
  by (simp add: conn_close_def cur_close_def log_def Let_def)

lemma refs_ok_plain:
  "refs_ok uid seen rs \<Longrightarrow>
   (\<forall>r \<in> set rs. case r of
        UserRow u n a oc i \<Rightarrow> False
      | AccountRow aid u t i b \<Rightarrow> u = uid
      | TransactionRow tid aid d a c m t \<Rightarrow>
          aid \<in> set seen \<or> (\<exists>u t i b. AccountRow aid u t i b \<in> set rs))"
proof (induction uid seen rs rule: refs_ok.induct)
  case (1 uid seen)
  then show ?case by simp
next
  case (2 uid seen aid u t i b rs)
  then show ?case by (fastforce split: db_row.splits)
next
  case (3 uid seen tid aid d a c m t rs)
  then show ?case by (fastforce split: db_row.splits)
next
  case (4 uid seen u n a oc i rs)
  then show ?case by simp
qed

lemma json_loads_Inr: "json_loads r = Inr j \<longleftrightarrow> r = Payload j"
  by (cases r) simp_all

subsection \<open>Construction and generation\<close>

text \<open>
  C8. The connection parameters \<open>dbname\<close>, \<open>user\<close>, \<open>password\<close>, \<open>host\<close> and \<open>port\<close>
  are each read from its own environment variable, \<open>DB_NAME\<close>, \<open>DB_USER\<close>,
  \<open>DB_PASSWORD\<close>, \<open>DB_HOST\<close> and \<open>DB_PORT\<close>, and each falls back to its default,
  \<open>financial_data\<close>, \<open>postgres\<close>, \<open>postgres\<close>, \<open>localhost\<close> and \<open>5432\<close>, when
  the variable is absent.
\<close>

theorem db_params_from_environment:
  "db_params (init env) =
     \<lparr>dbname = (case env ''DB_NAME'' of None \<Rightarrow> ''financial_data'' | Some v \<Rightarrow> v),
      user = (case env ''DB_USER'' of None \<Rightarrow> ''postgres'' | Some v \<Rightarrow> v),
      password = (case env ''DB_PASSWORD'' of None \<Rightarrow> ''postgres'' | Some v \<Rightarrow> v),
      host = (case env ''DB_HOST'' of None \<Rightarrow> ''localhost'' | Some v \<Rightarrow> v),
      port = (case env ''DB_PORT'' of None \<Rightarrow> ''5432'' | Some v \<Rightarrow> v)\<rparr>"
  by (simp add: init_def getenv_def)

text \<open>
  C10. \<open>generate_user_profile\<close> does not depend on its index: for two indices and the
  same world (the same coming replies of the model among it) the result and the world
  after the call, the request recorded in its trace included, are the same.
\<close>

theorem profile_ignores_index:
  "generate_user_profile self i w = generate_user_profile self j w"
  by (simp add: generate_user_profile_def)

text \<open>
  C7. Every request carries the settings of its tier: \<open>max_tokens\<close> 300 for the
  profile, 500 for the accounts, 1000 for the transactions, and temperature 0.7 for all
  three. The profile call always sends exactly one request; the other two send exactly
  one unless a subscript of their prompt raises before anything is sent.
\<close>

theorem generation_settings_fixed:
  "map settings (requests (trace (snd (generate_user_profile self index (fresh w)))))
     = [(300, Decimal 7 1)]
   \<and> map settings (requests (trace (snd (generate_accounts self user_profile (fresh w)))))
     = (if isl (getitem user_profile ''income_bracket'') then [] else [(500, Decimal 7 1)])
   \<and> map settings
       (requests (trace (snd (generate_transactions self account user_profile (fresh w)))))
     = (if isl (getitem account ''account_type'') \<or> isl (getitem account ''current_balance'')
           \<or> isl (getitem user_profile ''income_bracket'')
        then [] else [(1000, Decimal 7 1)])"
  by (auto simp: generate_user_profile_def generate_accounts_def generate_transactions_def
      trace_create_and_load fresh_def settings_def split: sum.splits)

theorem generation_settings_fixed_witness:
  "map settings (requests (trace (snd (generate_user_profile (init no_env) 0 (fresh (world0 []))))))
     = [(300, Decimal 7 1)]
   \<and> map settings (requests (trace (snd (generate_accounts (init no_env) jane (fresh (world0 []))))))
     = [(500, Decimal 7 1)]
   \<and> map settings
       (requests (trace (snd (generate_transactions (init no_env) checking_acct jane
                                (fresh (world0 []))))))
     = [(1000, Decimal 7 1)]"
  using generation_settings_fixed [of "init no_env" 0 "world0 []" jane checking_acct]
  by (simp add: jane_def checking_acct_def)

text \<open>
  C6, as the spec states it: whatever the model replies, \<open>generate_accounts\<close> returns
  a list of two to four accounts of enumerated types. It fails on the reply of the
  end-to-end scenario of the spec itself, a single checking account, which comes back as
  it is.
\<close>

theorem accounts_unvalidated_counterexample:
  "fst (generate_accounts (init no_env) jane (world0 [Some (Payload (JArr [checking_acct]))]))
     = Inr (JArr [checking_acct])
   \<and> \<not> valid_accounts (JArr [checking_acct])"
  by (simp add: generate_accounts_def jane_def create_and_load_def messages_create_def
      world0_def log_def Let_def)

text \<open>
  C6, amended. \<open>generate_accounts\<close> returns a value exactly when the profile has an
  income bracket and the reply of the model parses, and that value is the parsed reply,
  unchecked. So it is a list of two to four accounts of enumerated types if and only if
  the reply of the model is one.
\<close>

theorem accounts_are_the_reply:
  "fst (generate_accounts self user_profile w) = Inr j \<longleftrightarrow>
     \<not> isl (getitem user_profile ''income_bracket'') \<and> (\<exists>rs. replies w = Some (Payload j) # rs)"
  by (auto simp: generate_accounts_def create_and_load_def messages_create_def log_def Let_def
      json_loads_Inr split: sum.splits list.splits option.splits)

theorem accounts_are_the_reply_witness:
  "fst (generate_accounts (init no_env) jane
          (world0 [Some (Payload (JArr [checking_acct, savings_acct]))]))
     = Inr (JArr [checking_acct, savings_acct])
   \<and> valid_accounts (JArr [checking_acct, savings_acct])"
proof -
  have h: "\<not> isl (getitem jane ''income_bracket'') \<and>
      (\<exists>rs. replies (world0 [Some (Payload (JArr [checking_acct, savings_acct]))])
             = Some (Payload (JArr [checking_acct, savings_acct])) # rs)"
    by (simp add: jane_def world0_def)
  from accounts_are_the_reply [THEN iffD2, OF h] show ?thesis
    by (simp add: checking_acct_def savings_acct_def account_types_def)
qed

subsection \<open>Schema\<close>



subsection \<open>Persistence\<close>



text \<open>
  C2. \<open>insert_data\<close> commits at most once, and when it returns normally exactly once,
  after all the inserts and right before the cursor and the connection are closed.
  When it raises, the rows and tables committed before the call are all there is;
  when it returns they are still there, before the new rows. When one of the insert
  steps raises, the call raises and no commit is issued at all. Unless the connection
  could not be opened, the trace of the call ends with the closing of the cursor and of
  the connection, and no session is left open.
\<close>

theorem commit_once_at_end:
  "let r = fst (insert_data self user_data accounts_data transactions_data (fresh w));
       w' = snd (insert_data self user_data accounts_data transactions_data (fresh w));
       T = trace w'
   in count_list T Commit \<le> 1
    \<and> (r = Inr () \<longrightarrow>
          (\<exists>B. T = [Connect (db_params self), OpenCursor] @ B @ [Commit, CloseCursor, CloseConn]
               \<and> Commit \<notin> set B))
    \<and> (\<exists>new. rows (db w') = rows (db w) @ new \<and> (isl r \<longrightarrow> new = []))
    \<and> catalog (db w') = catalog (db w)
    \<and> (\<forall>w1. psycopg2_connect (db_params self) (fresh w) = (Inr (), w1) \<longrightarrow>
             isl (fst (insert_rows user_data accounts_data transactions_data (conn_cursor w1))) \<longrightarrow>
             isl r \<and> Commit \<notin> set T)
    \<and> (fails (faults w) \<and> T = [Connect (db_params self)]
        \<or> session w' = None \<and>
          (\<exists>B. T = [Connect (db_params self), OpenCursor] @ B @ [CloseCursor, CloseConn]))"
proof (cases "fails (faults w)")
  case True
  then show ?thesis
    by (simp add: insert_data_def connect_eq fresh_def)
next
  case nf: False
  let ?p = "db_params self"
  let ?w1 = "(fresh w)\<lparr>trace := [Connect ?p], faults := tl (faults w), session := Some (db w)\<rparr>"
  have conn: "psycopg2_connect ?p (fresh w) = (Inr (), ?w1)"
    using nf by (simp add: connect_eq fresh_def)
  obtain r3 w3 where
    i: "insert_rows user_data accounts_data transactions_data (conn_cursor ?w1) = (r3, w3)"
    by (cases "insert_rows user_data accounts_data transactions_data (conn_cursor ?w1)")
  from insert_rows_frame [OF i] obtain B d3 where
    f: "db w3 = db w" "session w3 = Some d3" "trace w3 = [Connect ?p, OpenCursor] @ B"
      "Commit \<notin> set B"
    by (auto simp: conn_cursor_def log_def fresh_def)
  show ?thesis
  proof (cases r3)
    case (Inl e)
    then have "insert_data self user_data accounts_data transactions_data (fresh w)
        = (Inl e, conn_close (cur_close w3))"
      by (simp add: insert_data_def conn insert_data_try_def i)
    then show ?thesis using f nf conn i Inl
      by (simp add: close_both [OF f(2)])
  next
    case (Inr u)
    then have r3: "r3 = Inr ()" by simp
    from insert_rows_rows [OF i [unfolded r3]] obtain new where
      n: "rows d3 = rows (db w) @ new" "catalog d3 = catalog (db w)"
      using f(2) by (auto simp: conn_cursor_def log_def fresh_def)
    obtain rc w2 where c: "conn_commit w3 = (rc, w2)" by (cases "conn_commit w3")
    have res: "insert_data self user_data accounts_data transactions_data (fresh w)
        = (rc, conn_close (cur_close w2))"
      by (simp add: insert_data_def conn insert_data_try_def i r3 c)
    show ?thesis
    proof (cases rc)
      case (Inl e)
      from conn_commit_Inl [OF c [unfolded Inl]] f
      have "db w2 = db w" "session w2 = Some d3"
        "trace w2 = [Connect ?p, OpenCursor] @ B @ [Commit]"
        by auto
      then show ?thesis using f(4) nf conn i r3 Inl
        by (simp add: res close_both [where d = d3])
    next
      case (Inr u')
      from conn_commit_Inr [OF c [unfolded Inr]] f
      have "db w2 = d3" "session w2 = Some d3"
        "trace w2 = [Connect ?p, OpenCursor] @ B @ [Commit]"
        by auto
      then show ?thesis using f(4) nf conn i r3 Inr n
        by (simp add: res close_both [where d = d3])
    qed
  qed
qed

theorem commit_once_at_end_witness:
  "fst (insert_data (init no_env) jane [checking_acct] [groceries_txn, JObj []]
          (fresh (ready_world []))) = Inl (KeyError ''date'')
   \<and> rows (db (snd (insert_data (init no_env) jane [checking_acct] [groceries_txn, JObj []]
                      (fresh (ready_world []))))) = []
   \<and> Commit \<notin> set (trace (snd (insert_data (init no_env) jane [checking_acct] [groceries_txn, JObj []]
                      (fresh (ready_world [])))))
   \<and> fst (insert_data (init no_env) jane [checking_acct] [groceries_txn]
          (fresh (ready_world []))) = Inr ()
   \<and> count_list (trace (snd (insert_data (init no_env) jane [checking_acct] [groceries_txn]
                      (fresh (ready_world []))))) Commit = 1"
proof -
  have h1: "fst (insert_data (init no_env) jane [checking_acct] [groceries_txn, JObj []]
          (fresh (ready_world []))) = Inl (KeyError ''date'')"
    by code_simp
  have h2: "fst (insert_data (init no_env) jane [checking_acct] [groceries_txn]
          (fresh (ready_world []))) = Inr ()"
    by code_simp
  have c: "psycopg2_connect (db_params (init no_env)) (fresh (ready_world []))
      = (Inr (), snd (psycopg2_connect (db_params (init no_env)) (fresh (ready_world []))))"
    by (simp add: connect_eq fresh_def ready_world_def world0_def)
  have i: "isl (fst (insert_rows jane [checking_acct] [groceries_txn, JObj []]
      (conn_cursor (snd (psycopg2_connect (db_params (init no_env)) (fresh (ready_world [])))))))"
    by code_simp
  have e: "rows (db (ready_world [])) = []"
    by (simp add: ready_world_def world0_def schema_rows empty_db_def)
  from commit_once_at_end [of "init no_env" jane "[checking_acct]" "[groceries_txn, JObj []]"
      "ready_world []"] h1 c i e
  have a: "rows (db (snd (insert_data (init no_env) jane [checking_acct] [groceries_txn, JObj []]
                      (fresh (ready_world []))))) = []"
     and b: "Commit \<notin> set (trace (snd (insert_data (init no_env) jane [checking_acct] [groceries_txn, JObj []]
                      (fresh (ready_world [])))))"
    by (auto simp: Let_def)
  from commit_once_at_end [of "init no_env" jane "[checking_acct]" "[groceries_txn]"
      "ready_world []"] h2
  have d: "count_list (trace (snd (insert_data (init no_env) jane [checking_acct] [groceries_txn]
                      (fresh (ready_world []))))) Commit = 1"
    by (auto simp: Let_def)
  from h1 h2 a b d show ?thesis by blast
qed

text \<open>
  C3. After a call of \<open>insert_data\<close> that returns normally, the rows the database
  gained are the user row, with the identifier the server drew for it, followed by rows
  that respect the tiers: every account row carries that user identifier, and every
  transaction row carries the identifier of an account row of the same call inserted
  before it.
\<close>

theorem rows_reference_upwards:
  assumes "fst (insert_data self user_data accounts_data transactions_data w) = Inr ()"
  shows "\<exists>n a oc i rest.
      rows (db (snd (insert_data self user_data accounts_data transactions_data w)))
        = rows (db w) @ UserRow (Suc (user_id_seq (db w))) n a oc i # rest
      \<and> refs_ok (Suc (user_id_seq (db w))) [] rest
      \<and> (\<forall>r \<in> set rest. case r of
             UserRow u n a oc i \<Rightarrow> False
           | AccountRow aid u t i b \<Rightarrow> u = Suc (user_id_seq (db w))
           | TransactionRow tid aid d a c m t \<Rightarrow> (\<exists>u t i b. AccountRow aid u t i b \<in> set rest))"
proof -
  let ?p = "db_params self"
  let ?w1 = "w\<lparr>trace := trace w @ [Connect ?p], faults := tl (faults w),
                session := Some (db w)\<rparr>"
  from assms have nf: "\<not> fails (faults w)"
    by (auto simp: insert_data_def connect_eq split: if_splits)
  obtain r2 w2 where
    t: "insert_data_try user_data accounts_data transactions_data (conn_cursor ?w1) = (r2, w2)"
    by (cases "insert_data_try user_data accounts_data transactions_data (conn_cursor ?w1)")
  have res: "insert_data self user_data accounts_data transactions_data w
      = (r2, conn_close (cur_close w2))"
    using nf t by (simp add: insert_data_def connect_eq)
  with assms have r2: "r2 = Inr ()" by simp
  obtain r3 w3 where
    i: "insert_rows user_data accounts_data transactions_data (conn_cursor ?w1) = (r3, w3)"
    by (cases "insert_rows user_data accounts_data transactions_data (conn_cursor ?w1)")
  from t r2 i have r3: "r3 = Inr ()" and c: "conn_commit w3 = (Inr (), w2)"
    by (auto simp: insert_data_try_def split: sum.splits)
  have s1: "session (conn_cursor ?w1) = Some (db w)"
    by (simp add: conn_cursor_def log_def)
  from insert_rows_rows [OF i [unfolded r3] s1] obtain d' n a oc i rest where
    n: "session w3 = Some d'"
      "rows d' = rows (db w) @ UserRow (Suc (user_id_seq (db w))) n a oc i # rest"
      "refs_ok (Suc (user_id_seq (db w))) [] rest"
    by blast
  from conn_commit_Inr [OF c] n(1) have w2: "session w2 = Some d'" "db w2 = d'"
    by auto
  have "rows (db (snd (insert_data self user_data accounts_data transactions_data w)))
      = rows (db w) @ UserRow (Suc (user_id_seq (db w))) n a oc i # rest"
    using n w2 by (simp add: res close_both [OF w2(1)])
  moreover have "\<forall>r \<in> set rest. case r of
             UserRow u n a oc i \<Rightarrow> False
           | AccountRow aid u t i b \<Rightarrow> u = Suc (user_id_seq (db w))
           | TransactionRow tid aid d a c m t \<Rightarrow> (\<exists>u t i b. AccountRow aid u t i b \<in> set rest)"
    using refs_ok_plain [OF n(3)] by (auto split: db_row.splits)
  ultimately show ?thesis using n(3)
    by blast
qed

theorem rows_reference_upwards_witness:
  "fst (insert_data (init no_env) jane [checking_acct, savings_acct] [groceries_txn, interest_txn]
          (ready_world [])) = Inr ()
   \<and> (\<exists>rest.
        rows (db (snd (insert_data (init no_env) jane [checking_acct, savings_acct]
                         [groceries_txn, interest_txn] (ready_world []))))
          = UserRow 1 (JStr ''Jane Doe'') (JInt 34) (JStr ''Engineer'') (JStr ''75k-100k'') # rest
        \<and> refs_ok 1 [] rest \<and> length rest = 6)"
proof -
  have h: "fst (insert_data (init no_env) jane [checking_acct, savings_acct]
      [groceries_txn, interest_txn] (ready_world [])) = Inr ()"
    by code_simp
  have l: "length (rows (db (snd (insert_data (init no_env) jane [checking_acct, savings_acct]
                         [groceries_txn, interest_txn] (ready_world []))))) = 7"
    by code_simp
  have hd: "hd (rows (db (snd (insert_data (init no_env) jane [checking_acct, savings_acct]
                         [groceries_txn, interest_txn] (ready_world []))))) = 
      UserRow 1 (JStr ''Jane Doe'') (JInt 34) (JStr ''Engineer'') (JStr ''75k-100k'')"
    by code_simp
  have e: "rows (db (ready_world [])) = []" "user_id_seq (db (ready_world [])) = 0"
    by (simp_all add: ready_world_def world0_def schema_rows schema_seqs empty_db_def)
  from rows_reference_upwards [OF h] h l hd show ?thesis
    by (auto simp: e)
qed

text \<open>
  C1. For one user \<open>insert_data\<close> inserts the user, then each account under the
  identifier of the user, and under each account only the transactions of that
  account. The code hands the whole flattened list to \<open>execute_values\<close> for every
  account: with a checking account whose batch is one grocery purchase and a savings
  account whose batch is one interest payment, both transactions are stored under both
  accounts, four transaction rows where the claim has two.
\<close>

theorem all_transactions_under_every_account:
  "rows (db (snd (generate_all_data (init no_env) 1 two_accounts_run))) =
   [UserRow 1 (JStr ''Jane Doe'') (JInt 34) (JStr ''Engineer'') (JStr ''75k-100k''),
    AccountRow 1 1 (JStr ''checking'') (JStr ''Test Bank'') (JFloat (Decimal 100000 2)),
    TransactionRow 1 1 (JStr ''2023-01-15'') (JFloat (Decimal (- 5000) 2)) (JStr ''groceries'')
      (JStr ''Store'') (JStr ''debit''),
    TransactionRow 2 1 (JStr ''2023-02-01'') (JFloat (Decimal 1250 2)) (JStr ''interest'')
      (JStr ''Test Bank'') (JStr ''credit''),
    AccountRow 2 1 (JStr ''savings'') (JStr ''Test Bank'') (JFloat (Decimal 250000 2)),
    TransactionRow 3 2 (JStr ''2023-01-15'') (JFloat (Decimal (- 5000) 2)) (JStr ''groceries'')
      (JStr ''Store'') (JStr ''debit''),
    TransactionRow 4 2 (JStr ''2023-02-01'') (JFloat (Decimal 1250 2)) (JStr ''interest'')
      (JStr ''Test Bank'') (JStr ''credit'')]"
  by code_simp

subsection \<open>The run\<close>


































end
